theory Spec2Isabelle
  imports Main "HOL-Library.Word"
begin

section \<open>JavaScript strings\<close>

text \<open>
  A JavaScript string is a finite sequence of 16-bit UTF-16 code units. The string
  methods and the non-unicode regular expressions used by \<^verbatim>\<open>lib/contact.ts\<close> all work
  on code units, so a string is modelled as a list of 16-bit words. ASCII literals of the
  source are written with \<open>ascii\<close>; every other literal is given by its code units.
\<close>

type_synonym jschar = "16 word"
type_synonym jsstring = "jschar list"

definition ascii :: "string \<Rightarrow> jsstring" where
  "ascii s = map (\<lambda>c. of_nat (of_char c)) s"

definition LF :: jsstring where
  "LF = [0x000A]"

text \<open>\<^verbatim>\<open>String.prototype.includes\<close>: does the needle occur as a contiguous run of code units?\<close>

fun starts_with :: "jsstring \<Rightarrow> jsstring \<Rightarrow> bool" where
  "starts_with hay [] = True"
| "starts_with [] (n # ns) = False"
| "starts_with (h # hs) (n # ns) = (h = n \<and> starts_with hs ns)"

fun str_includes :: "jsstring \<Rightarrow> jsstring \<Rightarrow> bool" where
  "str_includes [] needle = (needle = [])"
| "str_includes (h # hs) needle = (starts_with (h # hs) needle \<or> str_includes hs needle)"

text \<open>
  The code units that ECMAScript counts as white space or line terminators. Both
  \<^verbatim>\<open>String.prototype.trim\<close> and the regular-expression class \<^verbatim>\<open>\s\<close> use this set.
\<close>

definition isWhiteSpace :: "jschar \<Rightarrow> bool" where
  "isWhiteSpace c \<longleftrightarrow>
     c = 0x0009 \<or> c = 0x000A \<or> c = 0x000B \<or> c = 0x000C \<or> c = 0x000D \<or> c = 0x0020 \<or>
     c = 0x00A0 \<or> c = 0x1680 \<or> (0x2000 \<le> c \<and> c \<le> 0x200A) \<or> c = 0x2028 \<or> c = 0x2029 \<or>
     c = 0x202F \<or> c = 0x205F \<or> c = 0x3000 \<or> c = 0xFEFF"

definition trim :: "jsstring \<Rightarrow> jsstring" where
  "trim s = rev (dropWhile isWhiteSpace (rev (dropWhile isWhiteSpace s)))"

text \<open>
  \<^verbatim>\<open>s.replace(/[...]/g, f)\<close> for a regular expression that matches exactly one code unit of
  a class: every matching code unit is replaced by what the replacer returns for it, the
  others are copied, left to right, and the replacement is not scanned again.
\<close>

definition replace_each :: "(jschar \<Rightarrow> bool) \<Rightarrow> (jsstring \<Rightarrow> jsstring) \<Rightarrow> jsstring \<Rightarrow> jsstring" where
  "replace_each cls f s = concat (map (\<lambda>c. if cls c then f [c] else [c]) s)"

text \<open>
  \<^verbatim>\<open>s.replace(/C+/g, r)\<close> for a class \<open>C\<close>: every maximal run of matching code units is
  replaced by \<open>r\<close>; matching resumes after the run.
\<close>

function replace_runs :: "(jschar \<Rightarrow> bool) \<Rightarrow> jsstring \<Rightarrow> jsstring \<Rightarrow> jsstring" where
  "replace_runs cls r [] = []"
| "replace_runs cls r (c # cs) =
     (if cls c then r @ replace_runs cls r (dropWhile cls cs)
      else c # replace_runs cls r cs)"
  by pat_completeness auto
termination
  by (relation "measure (\<lambda>(cls, r, s). length s)")
     (auto simp: length_dropWhile_le less_Suc_eq_le)

section \<open>HTML escape helper\<close>

text \<open>
  \<^verbatim>\<open>escapeHtml\<close>: the lookup table \<open>map\<close> is keyed by one-character strings; the replacer
  is \<^verbatim>\<open>(char) => map[char] || char\<close>, so a missing or empty entry falls back to the
  matched text.
\<close>

definition escape_map :: "(jsstring \<times> jsstring) list" where
  \<open>escape_map =
     [(ascii ''&'', ascii ''&amp;''),
      (ascii ''<'', ascii ''&lt;''),
      (ascii ''>'', ascii ''&gt;''),
      (ascii ''"'', ascii ''&quot;''),
      ([0x0027], ascii ''&#039;'')]\<close>

definition escape_class :: "jschar \<Rightarrow> bool" where
  \<open>escape_class c \<longleftrightarrow> c \<in> set (ascii ''&<>"'' @ [0x0027])\<close>

definition escape_replacer :: "jsstring \<Rightarrow> jsstring" where
  "escape_replacer char =
     (case map_of escape_map char of
        Some r \<Rightarrow> if r \<noteq> [] then r else char
      | None \<Rightarrow> char)"

definition escapeHtml :: "jsstring \<Rightarrow> jsstring" where
  "escapeHtml text = replace_each escape_class escape_replacer text"

text \<open>
  The entity table as the specification words it: the five reserved characters and
  their entity references, every other code unit standing for itself.
\<close>

definition spec_entity :: "jschar \<Rightarrow> jsstring" where
  \<open>spec_entity c =
     (if c = 0x0026 then ascii ''&amp;''
      else if c = 0x003C then ascii ''&lt;''
      else if c = 0x003E then ascii ''&gt;''
      else if c = 0x0022 then ascii ''&quot;''
      else if c = 0x0027 then ascii ''&#039;''
      else [c])\<close>

definition reserved :: "jschar set" where
  "reserved = {0x0026, 0x003C, 0x003E, 0x0022, 0x0027}"

section \<open>Security quiz\<close>

definition SECURITY_ANSWER_VARIANTS :: "jsstring list" where
  \<open>SECURITY_ANSWER_VARIANTS =
     [[0x5BCC, 0x58EB, 0x5C71],
      [0x3075, 0x3058, 0x3055, 0x3093],
      [0x30D5, 0x30B8, 0x30B5, 0x30F3],
      ascii ''fujisan'',
      ascii ''mt.fuji'',
      ascii ''mtfuji'',
      ascii ''mount fuji'']\<close>

text \<open>
  \<^verbatim>\<open>validateSecurityAnswer\<close>. \<^verbatim>\<open>String.prototype.toLowerCase\<close> is the Unicode case mapping
  of the JavaScript runtime; its table is not part of the repository, so the function
  is a parameter of the model. \<open>/\s+/g\<close> removes runs of white space, \<open>/\./g\<close> removes
  full stops. The variants are normalised without \<open>trim\<close>, as in the source.
\<close>

definition is_dot :: "jschar \<Rightarrow> bool" where
  "is_dot c \<longleftrightarrow> c = 0x002E"

definition validateSecurityAnswer :: "(jsstring \<Rightarrow> jsstring) \<Rightarrow> jsstring \<Rightarrow> bool" where
  "validateSecurityAnswer toLowerCase answer =
     (let normalized =
            replace_each is_dot (\<lambda>_. [])
              (replace_runs isWhiteSpace [] (toLowerCase (trim answer)))
      in list_ex
           (\<lambda>variant.
              normalized =
                replace_each is_dot (\<lambda>_. [])
                  (replace_runs isWhiteSpace [] (toLowerCase variant)))
           SECURITY_ANSWER_VARIANTS)"

text \<open>
  The normalisation as the specification words it: trim, lowercase, drop every white
  space code unit, drop every full stop.
\<close>

definition spec_normalize :: "(jsstring \<Rightarrow> jsstring) \<Rightarrow> jsstring \<Rightarrow> jsstring" where
  "spec_normalize toLowerCase s =
     filter (\<lambda>c. c \<noteq> 0x002E) (filter (\<lambda>c. \<not> isWhiteSpace c) (toLowerCase (trim s)))"

text \<open>
  A sample case mapping for evaluating the validator on concrete answers: the ASCII
  fragment of \<^verbatim>\<open>toLowerCase\<close>, which maps \<open>A\<close>..\<open>Z\<close> to \<open>a\<close>..\<open>z\<close> and leaves every other
  code unit alone.
\<close>

definition ascii_toLowerCase :: "jsstring \<Rightarrow> jsstring" where
  "ascii_toLowerCase s = map (\<lambda>c. if 0x0041 \<le> c \<and> c \<le> 0x005A then c + 0x0020 else c) s"

section \<open>JavaScript values\<close>

text \<open>
  \<^verbatim>\<open>validateContactForm\<close> takes a value of type \<^verbatim>\<open>unknown\<close>, and the reCAPTCHA response is
  whatever JSON the endpoint returned. An object is given by its own data properties
  (a lookup of a missing key gives \<^verbatim>\<open>undefined\<close>); an array is an object in this sense.
  Numbers are carried as integers: the code only reads their type and truthiness.
\<close>

datatype jsval =
    JUndefined
  | JNull
  | JBoolean bool
  | JNumber int
  | JBigInt int
  | JString jsstring
  | JSymbol nat
  | JObject "(jsstring \<times> jsval) list"
  | JFunction "(jsstring \<times> jsval) list"

fun typeof :: "jsval \<Rightarrow> jsstring" where
  "typeof JUndefined = ascii ''undefined''"
| "typeof JNull = ascii ''object''"
| "typeof (JBoolean b) = ascii ''boolean''"
| "typeof (JNumber n) = ascii ''number''"
| "typeof (JBigInt n) = ascii ''bigint''"
| "typeof (JString s) = ascii ''string''"
| "typeof (JSymbol n) = ascii ''symbol''"
| "typeof (JObject ps) = ascii ''object''"
| "typeof (JFunction ps) = ascii ''function''"

fun truthy :: "jsval \<Rightarrow> bool" where
  "truthy JUndefined = False"
| "truthy JNull = False"
| "truthy (JBoolean b) = b"
| "truthy (JNumber n) = (n \<noteq> 0)"
| "truthy (JBigInt n) = (n \<noteq> 0)"
| "truthy (JString s) = (s \<noteq> [])"
| "truthy (JSymbol n) = True"
| "truthy (JObject ps) = True"
| "truthy (JFunction ps) = True"

text \<open>Property read \<^verbatim>\<open>d.key\<close> on a value already known to be an object.\<close>

fun get_prop :: "jsval \<Rightarrow> jsstring \<Rightarrow> jsval" where
  "get_prop (JObject ps) key = (case map_of ps key of Some v \<Rightarrow> v | None \<Rightarrow> JUndefined)"
| "get_prop (JFunction ps) key = (case map_of ps key of Some v \<Rightarrow> v | None \<Rightarrow> JUndefined)"
| "get_prop v key = JUndefined"

text \<open>The string behind a value, read only under a \<^verbatim>\<open>typeof ... === "string"\<close> guard.\<close>

fun string_of :: "jsval \<Rightarrow> jsstring" where
  "string_of (JString s) = s"
| "string_of v = []"

section \<open>Form validation\<close>

definition validateContactForm :: "jsval \<Rightarrow> bool" where
  \<open>validateContactForm data =
     (if typeof data \<noteq> ascii ''object'' \<or> data = JNull then False
      else
        let d = data in
          typeof (get_prop d (ascii ''name'')) = ascii ''string'' \<and>
          length (trim (string_of (get_prop d (ascii ''name'')))) > 0 \<and>
          typeof (get_prop d (ascii ''email'')) = ascii ''string'' \<and>
          str_includes (string_of (get_prop d (ascii ''email''))) (ascii ''@'') \<and>
          typeof (get_prop d (ascii ''message'')) = ascii ''string'' \<and>
          length (trim (string_of (get_prop d (ascii ''message'')))) > 0 \<and>
          typeof (get_prop d (ascii ''securityAnswer'')) = ascii ''string'')\<close>

section \<open>reCAPTCHA verification\<close>

text \<open>
  An awaited promise either resolves with a value or rejects with an error; a thrown
  exception is a rejection. The network is the function \<open>fetch\<close>: for a request it
  either rejects or resolves with a response, whose \<^verbatim>\<open>json()\<close> again either rejects or
  resolves with the parsed body. Everything the functions do besides returning is
  recorded, in order, in a list of events.
\<close>

datatype 'a outcome = Resolved 'a | Rejected jsval

record fetch_init =
  http_method :: jsstring
  headers :: "(jsstring \<times> jsstring) list"
  body :: "(jsstring \<times> jsstring) list"

record mail_options =
  mail_from :: jsstring
  mail_to :: jsstring
  replyTo :: "jsstring option"
  subject :: jsstring
  html :: jsstring
  mail_text :: jsstring

datatype event =
    ConsoleWarn jsstring
  | ConsoleError jsstring jsval
  | ConsoleLog jsstring
  | Fetch jsstring fetch_init
  | SendMail mail_options

type_synonym fetch_fn = "jsstring \<Rightarrow> fetch_init \<Rightarrow> jsval outcome outcome"

text \<open>
  Member read \<^verbatim>\<open>data.key\<close> on an arbitrary value: it throws a \<^verbatim>\<open>TypeError\<close> on
  \<^verbatim>\<open>undefined\<close> and \<^verbatim>\<open>null\<close>, and gives \<^verbatim>\<open>undefined\<close> on the other primitives, which
  have no property named \<open>success\<close> or \<open>error-codes\<close>.
\<close>

definition TypeError :: jsval where
  \<open>TypeError = JObject [(ascii ''name'', JString (ascii ''TypeError''))]\<close>

fun get_member :: "jsval \<Rightarrow> jsstring \<Rightarrow> jsval + jsval" where
  "get_member JUndefined key = Inl TypeError"
| "get_member JNull key = Inl TypeError"
| "get_member v key = Inr (get_prop v key)"

definition SITEVERIFY_URL :: jsstring where
  \<open>SITEVERIFY_URL = ascii ''https://www.google.com/recaptcha/api/siteverify''\<close>

definition siteverify_init :: "jsstring \<Rightarrow> jsstring \<Rightarrow> fetch_init" where
  \<open>siteverify_init secretKey token =
     \<lparr>http_method = ascii ''POST'',
      headers = [(ascii ''Content-Type'', ascii ''application/x-www-form-urlencoded'')],
      body = [(ascii ''secret'', secretKey), (ascii ''response'', token)]\<rparr>\<close>

text \<open>
  \<^verbatim>\<open>verifyRecaptcha\<close>: the optional secret key is \<open>None\<close> when the argument is omitted;
  \<^verbatim>\<open>!secretKey\<close> is true for a missing key and for the empty string. The result is the
  returned value and the events of the call.
\<close>

definition recaptcha_skipped :: "jsval \<times> event list" where
  \<open>recaptcha_skipped =
     (JBoolean True,
      [ConsoleWarn (ascii ''RECAPTCHA_SECRET_KEY not set, skipping verification'')])\<close>

definition recaptcha_caught :: "jsstring \<Rightarrow> jsstring \<Rightarrow> jsval \<Rightarrow> jsval \<times> event list" where
  \<open>recaptcha_caught secretKey token error =
     (JBoolean False,
      [Fetch SITEVERIFY_URL (siteverify_init secretKey token),
       ConsoleError (ascii ''reCAPTCHA verification error:'') error])\<close>

definition verifyRecaptcha :: "fetch_fn \<Rightarrow> jsstring \<Rightarrow> jsstring option \<Rightarrow> jsval \<times> event list" where
  \<open>verifyRecaptcha fetch token secretKey' =
     (case secretKey' of
        None \<Rightarrow> recaptcha_skipped
      | Some secretKey \<Rightarrow>
          if secretKey = [] then recaptcha_skipped
          else
            (case fetch SITEVERIFY_URL (siteverify_init secretKey token) of
               Rejected error \<Rightarrow> recaptcha_caught secretKey token error
             | Resolved response \<Rightarrow>
                 (case response of
                    Rejected error \<Rightarrow> recaptcha_caught secretKey token error
                  | Resolved data \<Rightarrow>
                      (case get_member data (ascii ''success'') of
                         Inl error \<Rightarrow> recaptcha_caught secretKey token error
                       | Inr success \<Rightarrow>
                           (success,
                            Fetch SITEVERIFY_URL (siteverify_init secretKey token) #
                            (if \<not> truthy success
                             then [ConsoleError (ascii ''reCAPTCHA verification failed:'')
                                     (get_prop data (ascii ''error-codes''))]
                             else []))))))\<close>

text \<open>Does a list of events contain a network call?\<close>

fun is_fetch :: "event \<Rightarrow> bool" where
  "is_fetch (Fetch url init) = True"
| "is_fetch e = False"

section \<open>Contact emails\<close>

record ContactFormData =
  name :: jsstring
  company :: "jsstring option"
  email :: jsstring
  phone :: "jsstring option"
  message :: jsstring
  securityAnswer :: jsstring
  recaptchaToken :: "jsstring option"

record SendContactEmailResult =
  success :: bool
  result_message :: "jsstring option"
  result_error :: "jsstring option"

text \<open>
  \<^verbatim>\<open>v ? f(v) : g\<close> and \<^verbatim>\<open>v || g\<close> on an optional string: a missing value and the empty
  string are falsy.
\<close>

definition if_truthy :: "jsstring option \<Rightarrow> (jsstring \<Rightarrow> 'a) \<Rightarrow> 'a \<Rightarrow> 'a" where
  "if_truthy v f g = (case v of None \<Rightarrow> g | Some s \<Rightarrow> if s = [] then g else f s)"

text \<open>The four template literals of \<^verbatim>\<open>sendContactEmail\<close>, line by line.\<close>

definition notification_html :: "ContactFormData \<Rightarrow> jsstring" where
  \<open>notification_html formData =
     concat
      [LF,
       ascii ''        <h2>'', [0x304A, 0x554F, 0x3044, 0x5408, 0x308F, 0x305B, 0x304C, 0x3042,
         0x308A, 0x307E, 0x3057, 0x305F], ascii ''</h2>'', LF,
       ascii ''        <table border="1" cellpadding="10" cellspacing="0" style="border-collapse: collapse;">'',
         LF,
       ascii ''          <tr>'', LF,
       ascii ''            <th style="background-color: #f5f5f5; text-align: left;">'', [0x304A,
         0x540D, 0x524D], ascii ''</th>'', LF,
       ascii ''            <td>'', escapeHtml (name formData), ascii ''</td>'', LF,
       ascii ''          </tr>'', LF,
       ascii ''          <tr>'', LF,
       ascii ''            <th style="background-color: #f5f5f5; text-align: left;">'', [0x4F1A,
         0x793E, 0x540D], ascii ''</th>'', LF,
       ascii ''            <td>'',
         if_truthy (company formData) (\<lambda>company'. escapeHtml company') [0xFF08, 0x672A,
         0x5165, 0x529B, 0xFF09], ascii ''</td>'', LF,
       ascii ''          </tr>'', LF,
       ascii ''          <tr>'', LF,
       ascii ''            <th style="background-color: #f5f5f5; text-align: left;">'', [0x30E1,
         0x30FC, 0x30EB, 0x30A2, 0x30C9, 0x30EC, 0x30B9], ascii ''</th>'', LF,
       ascii ''            <td><a href="mailto:'', escapeHtml (email formData), ascii ''">'',
         escapeHtml (email formData), ascii ''</a></td>'', LF,
       ascii ''          </tr>'', LF,
       ascii ''          <tr>'', LF,
       ascii ''            <th style="background-color: #f5f5f5; text-align: left;">'', [0x96FB,
         0x8A71, 0x756A, 0x53F7], ascii ''</th>'', LF,
       ascii ''            <td>'',
         if_truthy (phone formData) (\<lambda>phone'. escapeHtml phone') [0xFF08, 0x672A, 0x5165,
         0x529B, 0xFF09], ascii ''</td>'', LF,
       ascii ''          </tr>'', LF,
       ascii ''          <tr>'', LF,
       ascii ''            <th style="background-color: #f5f5f5; text-align: left;">'', [0x304A,
         0x554F, 0x3044, 0x5408, 0x308F, 0x305B, 0x5185, 0x5BB9], ascii ''</th>'', LF,
       ascii ''            <td style="white-space: pre-wrap;">'', escapeHtml (message formData),
         ascii ''</td>'', LF,
       ascii ''          </tr>'', LF,
       ascii ''        </table>'', LF,
       ascii ''        <p style="margin-top: 20px; color: #666; font-size: 12px;">'', LF,
       ascii ''          '', [0x3053, 0x306E, 0x30E1, 0x30FC, 0x30EB, 0x306F, 0x3059, 0x307E,
         0x3044, 0x308B, 0x30B5, 0x30DD, 0x30FC, 0x30C8, 0x306E, 0x304A, 0x554F, 0x3044, 0x5408,
         0x308F, 0x305B, 0x30D5, 0x30A9, 0x30FC, 0x30E0, 0x304B, 0x3089, 0x9001, 0x4FE1, 0x3055,
         0x308C, 0x307E, 0x3057, 0x305F, 0x3002], LF,
       ascii ''        </p>'', LF,
       ascii ''      '']\<close>

definition notification_text :: "ContactFormData \<Rightarrow> jsstring" where
  \<open>notification_text formData =
     trim (concat
      [LF,
       [0x304A, 0x554F, 0x3044, 0x5408, 0x308F, 0x305B, 0x304C, 0x3042, 0x308A, 0x307E, 0x3057,
         0x305F], LF,
       LF,
       [0x304A, 0x540D, 0x524D], ascii '': '', name formData, LF,
       [0x4F1A, 0x793E, 0x540D], ascii '': '',
         if_truthy (company formData) (\<lambda>company'. company') [0xFF08, 0x672A, 0x5165,
         0x529B, 0xFF09], LF,
       [0x30E1, 0x30FC, 0x30EB, 0x30A2, 0x30C9, 0x30EC, 0x30B9], ascii '': '', email formData, LF,
       [0x96FB, 0x8A71, 0x756A, 0x53F7], ascii '': '',
         if_truthy (phone formData) (\<lambda>phone'. phone') [0xFF08, 0x672A, 0x5165, 0x529B,
         0xFF09], LF,
       LF,
       [0x304A, 0x554F, 0x3044, 0x5408, 0x308F, 0x305B, 0x5185, 0x5BB9], ascii '':'', LF,
       message formData, LF,
       ascii ''      ''])\<close>

definition autoReply_html :: "ContactFormData \<Rightarrow> jsstring" where
  \<open>autoReply_html formData =
     concat
      [LF,
       ascii ''        <div style="font-family: sans-serif; max-width: 600px; margin: 0 auto;">'',
         LF,
       ascii ''          <h2 style="color: #D2691E;">'', [0x304A, 0x554F, 0x3044, 0x5408, 0x308F,
         0x305B, 0x3042, 0x308A, 0x304C, 0x3068, 0x3046, 0x3054, 0x3056, 0x3044, 0x307E, 0x3059],
         ascii ''</h2>'', LF,
       ascii ''          <p>'', escapeHtml (name formData), ascii '' '', [0x69D8], ascii ''</p>'',
         LF,
       ascii ''          <p>'', LF,
       ascii ''            '', [0x3053, 0x306E, 0x5EA6, 0x306F, 0x3001, 0x3059, 0x307E, 0x3044,
         0x308B, 0x30B5, 0x30DD, 0x30FC, 0x30C8, 0x306B, 0x304A, 0x554F, 0x3044, 0x5408, 0x308F,
         0x305B, 0x3044, 0x305F, 0x3060, 0x304D, 0x3001, 0x8AA0, 0x306B, 0x3042, 0x308A, 0x304C,
         0x3068, 0x3046, 0x3054, 0x3056, 0x3044, 0x307E, 0x3059, 0x3002], ascii ''<br>'', LF,
       ascii ''            '', [0x4EE5, 0x4E0B, 0x306E, 0x5185, 0x5BB9, 0x3067, 0x304A, 0x554F,
         0x3044, 0x5408, 0x308F, 0x305B, 0x3092, 0x53D7, 0x3051, 0x4ED8, 0x3051, 0x307E, 0x3057,
         0x305F, 0x3002], LF,
       ascii ''          </p>'', LF,
       ascii ''          <div style="background-color: #FFF8F0; padding: 20px; border-radius: 8px; margin: 20px 0;">'',
         LF,
       ascii ''            <p style="margin: 0 0 10px 0;"><strong>'', [0x304A, 0x540D, 0x524D],
         ascii '':</strong> '', escapeHtml (name formData), ascii ''</p>'', LF,
       ascii ''            '',
         if_truthy (company formData) (\<lambda>company'. concat [ascii ''<p style="margin: 0 0 10px 0;"><strong>'',
         [0x4F1A, 0x793E, 0x540D], ascii '':</strong> '', escapeHtml company',
         ascii ''</p>'']) [], LF,
       ascii ''            <p style="margin: 0 0 10px 0;"><strong>'', [0x30E1, 0x30FC, 0x30EB,
         0x30A2, 0x30C9, 0x30EC, 0x30B9], ascii '':</strong> '', escapeHtml (email formData),
         ascii ''</p>'', LF,
       ascii ''            '',
         if_truthy (phone formData) (\<lambda>phone'. concat [ascii ''<p style="margin: 0 0 10px 0;"><strong>'',
         [0x96FB, 0x8A71, 0x756A, 0x53F7], ascii '':</strong> '', escapeHtml phone',
         ascii ''</p>'']) [], LF,
       ascii ''            <p style="margin: 0;"><strong>'', [0x304A, 0x554F, 0x3044, 0x5408,
         0x308F, 0x305B, 0x5185, 0x5BB9], ascii '':</strong></p>'', LF,
       ascii ''            <p style="margin: 5px 0 0 0; white-space: pre-wrap;">'',
         escapeHtml (message formData), ascii ''</p>'', LF,
       ascii ''          </div>'', LF,
       ascii ''          <p>'', LF,
       ascii ''            '', [0x62C5, 0x5F53, 0x8005, 0x3088, 0x308A], ascii ''<strong>2'',
         [0x55B6, 0x696D, 0x65E5, 0x4EE5, 0x5185], ascii ''</strong>'', [0x306B, 0x3054, 0x9023,
         0x7D61, 0x3044, 0x305F, 0x3057, 0x307E, 0x3059, 0x306E, 0x3067, 0x3001], ascii ''<br>'',
         LF,
       ascii ''            '', [0x4ECA, 0x3057, 0x3070, 0x3089, 0x304F, 0x304A, 0x5F85, 0x3061,
         0x304F, 0x3060, 0x3055, 0x3044, 0x307E, 0x305B, 0x3002], LF,
       ascii ''          </p>'', LF,
       ascii ''          <hr style="border: none; border-top: 1px solid #ddd; margin: 30px 0;">'',
         LF,
       ascii ''          <p style="color: #666; font-size: 12px;">'', LF,
       ascii ''            '', [0x3059, 0x307E, 0x3044, 0x308B, 0x30B5, 0x30DD, 0x30FC, 0x30C8],
         ascii ''<br>'', LF,
       ascii ''            '', [0x3012], ascii ''142-0042 '', [0x6771, 0x4EAC, 0x90FD, 0x54C1,
         0x5DDD, 0x533A, 0x8C4A, 0x753A], ascii ''6-18-15 '', [0x30DF, 0x30E5, 0x30FC, 0x30B8,
         0x30B7, 0x30E7, 0x30F3, 0x30C6, 0x30E9, 0x30B9, 0x54C1, 0x5DDD, 0x8C4A, 0x753A],
         ascii ''<br>'', LF,
       ascii ''            <br>'', LF,
       ascii ''            '', [0x203B, 0x3053, 0x306E, 0x30E1, 0x30FC, 0x30EB, 0x306F, 0x81EA,
         0x52D5, 0x9001, 0x4FE1, 0x3055, 0x308C, 0x3066, 0x3044, 0x307E, 0x3059, 0x3002],
         ascii ''<br>'', LF,
       ascii ''            '', [0x203B, 0x3053, 0x306E, 0x30E1, 0x30FC, 0x30EB, 0x306B, 0x5FC3,
         0x5F53, 0x305F, 0x308A, 0x304C, 0x306A, 0x3044, 0x5834, 0x5408, 0x306F, 0x3001, 0x304A,
         0x624B, 0x6570, 0x3067, 0x3059, 0x304C, 0x524A, 0x9664, 0x3057, 0x3066, 0x304F, 0x3060,
         0x3055, 0x3044, 0x3002], LF,
       ascii ''          </p>'', LF,
       ascii ''        </div>'', LF,
       ascii ''      '']\<close>

definition autoReply_text :: "ContactFormData \<Rightarrow> jsstring" where
  \<open>autoReply_text formData =
     trim (concat
      [LF,
       name formData, ascii '' '', [0x69D8], LF,
       LF,
       [0x3053, 0x306E, 0x5EA6, 0x306F, 0x3001, 0x3059, 0x307E, 0x3044, 0x308B, 0x30B5, 0x30DD,
         0x30FC, 0x30C8, 0x306B, 0x304A, 0x554F, 0x3044, 0x5408, 0x308F, 0x305B, 0x3044, 0x305F,
         0x3060, 0x304D, 0x3001, 0x8AA0, 0x306B, 0x3042, 0x308A, 0x304C, 0x3068, 0x3046, 0x3054,
         0x3056, 0x3044, 0x307E, 0x3059, 0x3002], LF,
       [0x4EE5, 0x4E0B, 0x306E, 0x5185, 0x5BB9, 0x3067, 0x304A, 0x554F, 0x3044, 0x5408, 0x308F,
         0x305B, 0x3092, 0x53D7, 0x3051, 0x4ED8, 0x3051, 0x307E, 0x3057, 0x305F, 0x3002], LF,
       LF,
       [0x2501, 0x2501, 0x2501, 0x2501, 0x2501, 0x2501, 0x2501, 0x2501, 0x2501, 0x2501, 0x2501,
         0x2501, 0x2501, 0x2501, 0x2501, 0x2501, 0x2501, 0x2501, 0x2501, 0x2501, 0x2501, 0x2501,
         0x2501, 0x2501, 0x2501, 0x2501, 0x2501, 0x2501, 0x2501, 0x2501], LF,
       [0x304A, 0x540D, 0x524D], ascii '': '', name formData, LF,
       if_truthy (company formData) (\<lambda>company'. concat [[0x4F1A, 0x793E, 0x540D],
         ascii '': '', company', LF]) [], [0x30E1, 0x30FC, 0x30EB, 0x30A2, 0x30C9, 0x30EC,
         0x30B9], ascii '': '', email formData, LF,
       if_truthy (phone formData) (\<lambda>phone'. concat [[0x96FB, 0x8A71, 0x756A, 0x53F7],
         ascii '': '', phone', LF]) [], LF,
       [0x304A, 0x554F, 0x3044, 0x5408, 0x308F, 0x305B, 0x5185, 0x5BB9], ascii '':'', LF,
       message formData, LF,
       [0x2501, 0x2501, 0x2501, 0x2501, 0x2501, 0x2501, 0x2501, 0x2501, 0x2501, 0x2501, 0x2501,
         0x2501, 0x2501, 0x2501, 0x2501, 0x2501, 0x2501, 0x2501, 0x2501, 0x2501, 0x2501, 0x2501,
         0x2501, 0x2501, 0x2501, 0x2501, 0x2501, 0x2501, 0x2501, 0x2501], LF,
       LF,
       [0x62C5, 0x5F53, 0x8005, 0x3088, 0x308A], ascii ''2'', [0x55B6, 0x696D, 0x65E5, 0x4EE5,
         0x5185, 0x306B, 0x3054, 0x9023, 0x7D61, 0x3044, 0x305F, 0x3057, 0x307E, 0x3059, 0x306E,
         0x3067, 0x3001], LF,
       [0x4ECA, 0x3057, 0x3070, 0x3089, 0x304F, 0x304A, 0x5F85, 0x3061, 0x304F, 0x3060, 0x3055,
         0x3044, 0x307E, 0x305B, 0x3002], LF,
       LF,
       [0x2500, 0x2500, 0x2500, 0x2500, 0x2500, 0x2500, 0x2500, 0x2500, 0x2500, 0x2500, 0x2500,
         0x2500, 0x2500, 0x2500, 0x2500, 0x2500, 0x2500, 0x2500, 0x2500, 0x2500, 0x2500, 0x2500,
         0x2500, 0x2500, 0x2500, 0x2500, 0x2500, 0x2500, 0x2500], LF,
       [0x3059, 0x307E, 0x3044, 0x308B, 0x30B5, 0x30DD, 0x30FC, 0x30C8], LF,
       [0x3012], ascii ''142-0042 '', [0x6771, 0x4EAC, 0x90FD, 0x54C1, 0x5DDD, 0x533A, 0x8C4A,
         0x753A], ascii ''6-18-15 '', [0x30DF, 0x30E5, 0x30FC, 0x30B8, 0x30B7, 0x30E7, 0x30F3,
         0x30C6, 0x30E9, 0x30B9, 0x54C1, 0x5DDD, 0x8C4A, 0x753A], LF,
       LF,
       [0x203B, 0x3053, 0x306E, 0x30E1, 0x30FC, 0x30EB, 0x306F, 0x81EA, 0x52D5, 0x9001, 0x4FE1,
         0x3055, 0x308C, 0x3066, 0x3044, 0x307E, 0x3059, 0x3002], LF,
       [0x203B, 0x3053, 0x306E, 0x30E1, 0x30FC, 0x30EB, 0x306B, 0x5FC3, 0x5F53, 0x305F, 0x308A,
         0x304C, 0x306A, 0x3044, 0x5834, 0x5408, 0x306F, 0x3001, 0x304A, 0x624B, 0x6570, 0x3067,
         0x3059, 0x304C, 0x524A, 0x9664, 0x3057, 0x3066, 0x304F, 0x3060, 0x3055, 0x3044, 0x3002],
         LF,
       ascii ''      ''])\<close>

definition mailOptions :: "ContactFormData \<Rightarrow> jsstring \<Rightarrow> mail_options" where
  \<open>mailOptions formData gmailUser =
     \<lparr>mail_from = concat [ascii ''"'', [0x3059, 0x307E, 0x3044, 0x308B, 0x30B5, 0x30DD,
       0x30FC, 0x30C8], ascii '' '', [0x304A, 0x554F, 0x3044, 0x5408, 0x308F, 0x305B],
       ascii ''" <'', gmailUser, ascii ''>''],
      mail_to = gmailUser,
      replyTo = Some (email formData),
      subject = concat [[0x3010, 0x304A, 0x554F, 0x3044, 0x5408, 0x308F, 0x305B, 0x3011],
        name formData, [0x69D8, 0x3088, 0x308A]],
      html = notification_html formData,
      mail_text = notification_text formData\<rparr>\<close>

definition autoReplyOptions :: "ContactFormData \<Rightarrow> jsstring \<Rightarrow> mail_options" where
  \<open>autoReplyOptions formData gmailUser =
     \<lparr>mail_from = concat [ascii ''"'', [0x3059, 0x307E, 0x3044, 0x308B, 0x30B5, 0x30DD,
       0x30FC, 0x30C8], ascii ''" <'', gmailUser, ascii ''>''],
      mail_to = email formData,
      replyTo = None,
      subject = [0x3010, 0x3059, 0x307E, 0x3044, 0x308B, 0x30B5, 0x30DD, 0x30FC, 0x30C8, 0x3011,
        0x304A, 0x554F, 0x3044, 0x5408, 0x308F, 0x305B, 0x3092, 0x53D7, 0x3051, 0x4ED8, 0x3051,
        0x307E, 0x3057, 0x305F],
      html = autoReply_html formData,
      mail_text = autoReply_text formData\<rparr>\<close>

definition SUCCESS_MESSAGE :: jsstring where
  \<open>SUCCESS_MESSAGE =
     [0x304A, 0x554F, 0x3044, 0x5408, 0x308F, 0x305B, 0x3092, 0x53D7, 0x3051,
       0x4ED8,
  0x3051, 0x307E, 0x3057, 0x305F, 0x3002, 0x62C5, 0x5F53, 0x8005,
       0x3088,
  0x308A] @ ascii ''2'' @ [0x55B6, 0x696D, 0x65E5, 0x4EE5, 0x5185, 0x306B,
       0x3054, 0x9023, 0x7D61,
  0x3044, 0x305F, 0x3057, 0x307E, 0x3059, 0x3002]\<close>

definition FAILURE_MESSAGE :: jsstring where
  \<open>FAILURE_MESSAGE =
     [0x30E1, 0x30FC, 0x30EB, 0x306E, 0x9001, 0x4FE1, 0x306B, 0x5931, 0x6557, 0x3057,
       0x307E,
  0x3057, 0x305F, 0x3002, 0x3057, 0x3070, 0x3089, 0x304F, 0x7D4C, 0x3063,
       0x3066, 0x304B, 0x3089,
  0x518D, 0x5EA6, 0x304A, 0x8A66, 0x3057, 0x304F, 0x3060,
       0x3055, 0x3044, 0x3002]\<close>

text \<open>
  The transporter is the mail-sending capability: \<^verbatim>\<open>sendMail\<close> takes a message and
  either resolves or rejects, and may change the transporter's state (a test double
  that counts its calls, a connection). \<^verbatim>\<open>sendContactEmail\<close> returns its result, the
  transporter's final state and the events of the call; the two \<^verbatim>\<open>await\<close>s run one
  after the other, and the \<^verbatim>\<open>catch\<close> block turns either rejection into the failure
  result.
\<close>

type_synonym 't transporter = "'t \<Rightarrow> mail_options \<Rightarrow> jsval outcome \<times> 't"

definition send_succeeded :: SendContactEmailResult where
  \<open>send_succeeded =
     \<lparr>success = True,
      result_message = Some (SUCCESS_MESSAGE),
      result_error = None\<rparr>\<close>

definition send_failed :: SendContactEmailResult where
  \<open>send_failed =
     \<lparr>success = False,
      result_message = None,
      result_error = Some (FAILURE_MESSAGE)\<rparr>\<close>

definition sendContactEmail ::
  "ContactFormData \<Rightarrow> 't transporter \<Rightarrow> 't \<Rightarrow> jsstring \<Rightarrow> SendContactEmailResult \<times> 't \<times> event list" where
  \<open>sendContactEmail formData sendMail t0 gmailUser =
     (case sendMail t0 (mailOptions formData gmailUser) of
        (Rejected error, t1) \<Rightarrow>
          (send_failed, t1,
           [SendMail (mailOptions formData gmailUser),
            ConsoleError (ascii ''Failed to send contact email:'') error])
      | (Resolved info, t1) \<Rightarrow>
          (case sendMail t1 (autoReplyOptions formData gmailUser) of
             (Rejected error, t2) \<Rightarrow>
               (send_failed, t2,
                [SendMail (mailOptions formData gmailUser),
                 SendMail (autoReplyOptions formData gmailUser),
                 ConsoleError (ascii ''Failed to send contact email:'') error])
           | (Resolved info', t2) \<Rightarrow>
               (send_succeeded, t2,
                [SendMail (mailOptions formData gmailUser),
                 SendMail (autoReplyOptions formData gmailUser),
                 ConsoleLog (ascii ''Contact form submitted successfully from: '' @ email formData)])))\<close>

text \<open>The messages handed to the transporter, in the order of the calls.\<close>

fun sent :: "event list \<Rightarrow> mail_options list" where
  "sent [] = []"
| "sent (SendMail m # es) = m # sent es"
| "sent (e # es) = sent es"

section \<open>Vocabulary of the properties and sample inputs\<close>

text \<open>The property names \<^verbatim>\<open>validateContactForm\<close> reads, and the optional ones it does not.\<close>

definition REQUIRED_FIELDS :: "jsstring list" where
  \<open>REQUIRED_FIELDS = [ascii ''name'', ascii ''email'', ascii ''message'', ascii ''securityAnswer'']\<close>

definition OPTIONAL_FIELDS :: "jsstring list" where
  \<open>OPTIONAL_FIELDS = [ascii ''company'', ascii ''phone'', ascii ''recaptchaToken'']\<close>

text \<open>A submission without a name, for evaluating the validator.\<close>

definition sample_form :: "(jsstring \<times> jsval) list" where
  \<open>sample_form =
     [(ascii ''email'', JString (ascii ''test@example.com'')),
      (ascii ''message'', JString (ascii ''hello'')),
      (ascii ''securityAnswer'', JString (ascii ''fujisan''))]\<close>

text \<open>A network that always fails, and one whose response body cannot be parsed.\<close>

definition fetch_network_error :: fetch_fn where
  \<open>fetch_network_error url init = Rejected (JString (ascii ''Network error''))\<close>

definition fetch_bad_json :: fetch_fn where
  \<open>fetch_bad_json url init = Resolved (Rejected (JString (ascii ''Unexpected token'')))\<close>

text \<open>
  Test doubles for the transporter: the state counts the calls. One rejects every send,
  one accepts the first send and rejects the later ones, one accepts every send.
\<close>

definition SMTP_error :: jsval where
  \<open>SMTP_error = JString (ascii ''SMTP error'')\<close>

definition rejecting_transporter :: "nat transporter" where
  "rejecting_transporter calls m = (Rejected SMTP_error, Suc calls)"

definition second_rejecting_transporter :: "nat transporter" where
  "second_rejecting_transporter calls m =
     (if calls = 0 then Resolved JUndefined else Rejected SMTP_error, Suc calls)"

definition accepting_transporter :: "nat transporter" where
  "accepting_transporter calls m = (Resolved JUndefined, Suc calls)"

text \<open>The valid submission of the test suite.\<close>

definition validFormData :: ContactFormData where
  \<open>validFormData =
     \<lparr>name = [0x5C71, 0x7530, 0x592A, 0x90CE],
      company = Some [0x30C6, 0x30B9, 0x30C8, 0x682A, 0x5F0F, 0x4F1A, 0x793E],
      email = ascii ''customer@example.com'',
      phone = Some (ascii ''03-1234-5678''),
      message = [0x304A, 0x554F, 0x3044, 0x5408, 0x308F, 0x305B, 0x5185, 0x5BB9, 0x3067, 0x3059],
      securityAnswer = [0x5BCC, 0x58EB, 0x5C71],
      recaptchaToken = None\<rparr>\<close>

text \<open>
  The shape of the markup in the two HTML templates: every \<open><\<close> is followed, within the
  same piece of text, by two code units that are not \<open>sc\<close>. Text of this shape cannot
  contain \<open><script>\<close>, and the shape survives concatenation.
\<close>

fun lt_guarded :: "jsstring \<Rightarrow> bool" where
  "lt_guarded (c # d # e # r) =
     ((c = 0x003C \<longrightarrow> \<not> (d = 0x0073 \<and> e = 0x0063)) \<and> lt_guarded (d # e # r))"
| "lt_guarded [c, d] = (c \<noteq> 0x003C \<and> d \<noteq> 0x003C)"
| "lt_guarded [c] = (c \<noteq> 0x003C)"
| "lt_guarded [] = True"

text \<open>The submission of the test suite that carries markup in its fields.\<close>

definition xssFormData :: ContactFormData where
  \<open>xssFormData =
     \<lparr>name = ascii ''<script>alert('xss')</script>'',
      company = None,
      email = ascii ''test@example.com'',
      phone = None,
      message = ascii ''<img src=x onerror=alert(1)>'',
      securityAnswer = [0x5BCC, 0x58EB, 0x5C71],
      recaptchaToken = None\<rparr>\<close>

text \<open>
  What it means for a message that the submission reached its HTML body through
  \<open>escapeHtml\<close>: the body is free of \<open><script>\<close>, and it contains the escaped name, email
  and message, and the escaped company and phone when these are given.
\<close>

definition html_escaped :: "ContactFormData \<Rightarrow> mail_options \<Rightarrow> bool" where
  \<open>html_escaped formData m \<longleftrightarrow>
     \<not> str_includes (html m) (ascii ''<script>'') \<and>
     str_includes (html m) (escapeHtml (name formData)) \<and>
     str_includes (html m) (escapeHtml (email formData)) \<and>
     str_includes (html m) (escapeHtml (message formData)) \<and>
     if_truthy (company formData) (\<lambda>company'. str_includes (html m) (escapeHtml company')) True \<and>
     if_truthy (phone formData) (\<lambda>phone'. str_includes (html m) (escapeHtml phone')) True\<close>

section \<open>Properties of the string helpers\<close>

lemma starts_with_iff: "starts_with hay needle \<longleftrightarrow> (\<exists>s. hay = needle @ s)"
  by (induction hay needle rule: starts_with.induct) auto

lemma includes_iff: "str_includes hay needle \<longleftrightarrow> (\<exists>p s. hay = p @ needle @ s)"
proof (induction hay)
  case Nil
  then show ?case by simp
next
  case (Cons h hs)
  show ?case
  proof
    assume "str_includes (h # hs) needle"
    then consider "starts_with (h # hs) needle" | "str_includes hs needle" by auto
    then show "\<exists>p s. h # hs = p @ needle @ s"
    proof cases
      case 1
      then obtain s where "h # hs = needle @ s" by (auto simp: starts_with_iff)
      then have "h # hs = [] @ needle @ s" by simp
      then show ?thesis by blast
    next
      case 2
      with Cons.IH obtain p s where "hs = p @ needle @ s" by blast
      then have "h # hs = (h # p) @ needle @ s" by simp
      then show ?thesis by blast
    qed
  next
    assume "\<exists>p s. h # hs = p @ needle @ s"
    then obtain p s where eq: "h # hs = p @ needle @ s" by blast
    show "str_includes (h # hs) needle"
    proof (cases p)
      case Nil
      with eq have "starts_with (h # hs) needle" by (auto simp: starts_with_iff)
      then show ?thesis by simp
    next
      case (Cons a p')
      with eq have "hs = p' @ needle @ s" by simp
      with Cons.IH have "str_includes hs needle" by blast
      then show ?thesis by simp
    qed
  qed
qed

lemma replace_each_append:
  "replace_each cls f (a @ b) = replace_each cls f a @ replace_each cls f b"
  by (simp add: replace_each_def)

lemma replace_runs_filter: "replace_runs cls [] s = filter (\<lambda>c. \<not> cls c) s"
proof (induction cls "[] :: jsstring" s rule: replace_runs.induct)
  case (1 cls)
  then show ?case by simp
next
  case (2 cls c cs)
  have "filter (\<lambda>c. \<not> cls c) (dropWhile cls cs) = filter (\<lambda>c. \<not> cls c) cs"
    by (induction cs) auto
  with 2 show ?case by simp
qed

lemma escape_replacer_entity: "escape_class c \<Longrightarrow> escape_replacer [c] = spec_entity c"
  by (auto simp: escape_class_def escape_replacer_def escape_map_def spec_entity_def ascii_def)

lemma spec_entity_other: "\<not> escape_class c \<Longrightarrow> spec_entity c = [c]"
  by (auto simp: escape_class_def spec_entity_def ascii_def)

lemma escape_class_reserved: "escape_class c \<longleftrightarrow> c \<in> reserved"
  by (auto simp: escape_class_def reserved_def ascii_def)

lemma escapeHtml_concat_map: "escapeHtml s = concat (map spec_entity s)"
proof -
  have "(\<lambda>c. if escape_class c then escape_replacer [c] else [c]) = spec_entity"
    by (rule ext) (simp add: escape_replacer_entity spec_entity_other)
  then show ?thesis by (simp add: escapeHtml_def replace_each_def)
qed

lemma escapeHtml_append: "escapeHtml (a @ b) = escapeHtml a @ escapeHtml b"
  by (simp add: escapeHtml_def replace_each_append)

lemma escapeHtml_unreserved: "\<forall>c\<in>set s. c \<notin> reserved \<Longrightarrow> escapeHtml s = s"
  by (induction s) (auto simp: escapeHtml_concat_map spec_entity_other escape_class_reserved)

section \<open>Properties of the HTML escape helper\<close>

text \<open>
  Claim C4. For every string, \<open>escapeHtml\<close> replaces each occurrence of the five reserved
  characters \<open>&\<close>, \<open><\<close>, \<open>>\<close>, double quote and single quote by its entity reference and
  copies every other code unit, in order and in one pass: the result is the concatenation
  of the per-character entities. The empty string maps to the empty string, and a string
  without reserved characters is returned unchanged.
\<close>

theorem C4_escapeHtml_entities:
  "escapeHtml s = concat (map spec_entity s)
   \<and> escapeHtml [] = []
   \<and> ((\<forall>c\<in>set s. c \<notin> reserved) \<longrightarrow> escapeHtml s = s)"
  using escapeHtml_concat_map [of s] escapeHtml_concat_map [of "[]"] escapeHtml_unreserved [of s]
  by simp

theorem C4_escapeHtml_entities_witness:
  "list_all (\<lambda>c. c \<notin> reserved) (ascii ''Hello World'' @ [0x65E5, 0x672C, 0x8A9E])
   \<and> escapeHtml (ascii ''Hello World'' @ [0x65E5, 0x672C, 0x8A9E])
       = ascii ''Hello World'' @ [0x65E5, 0x672C, 0x8A9E]
   \<and> escapeHtml (ascii ''Hello World'' @ [0x65E5, 0x672C, 0x8A9E])
       = concat (map spec_entity (ascii ''Hello World'' @ [0x65E5, 0x672C, 0x8A9E]))"
proof -
  have h: "\<forall>c\<in>set (ascii ''Hello World'' @ [0x65E5, 0x672C, 0x8A9E]). c \<notin> reserved"
    by (simp add: ascii_def reserved_def)
  with C4_escapeHtml_entities [of "ascii ''Hello World'' @ [0x65E5, 0x672C, 0x8A9E]"]
  show ?thesis unfolding list_all_iff by blast
qed

section \<open>The security-answer validator\<close>

lemma code_normalize_filter:
  "replace_each is_dot (\<lambda>_. []) (replace_runs isWhiteSpace [] x)
     = filter (\<lambda>c. c \<noteq> 0x002E) (filter (\<lambda>c. \<not> isWhiteSpace c) x)"
proof -
  have "replace_each is_dot (\<lambda>_. []) y = filter (\<lambda>c. c \<noteq> 0x002E) y" for y
    by (induction y) (simp_all add: replace_each_def is_dot_def)
  then show ?thesis by (simp add: replace_runs_filter)
qed

lemma trim_variant: "v \<in> set SECURITY_ANSWER_VARIANTS \<Longrightarrow> trim v = v"
  by (auto simp: SECURITY_ANSWER_VARIANTS_def trim_def isWhiteSpace_def ascii_def)

lemma validateSecurityAnswer_spec:
  "validateSecurityAnswer toLowerCase s \<longleftrightarrow>
     spec_normalize toLowerCase s \<in> spec_normalize toLowerCase ` set SECURITY_ANSWER_VARIANTS"
proof -
  have "validateSecurityAnswer toLowerCase s \<longleftrightarrow>
     (\<exists>v\<in>set SECURITY_ANSWER_VARIANTS.
        spec_normalize toLowerCase s
          = filter (\<lambda>c. c \<noteq> 0x002E) (filter (\<lambda>c. \<not> isWhiteSpace c) (toLowerCase v)))"
    by (simp add: validateSecurityAnswer_def Let_def code_normalize_filter spec_normalize_def
        list_ex_iff)
  also have "\<dots> \<longleftrightarrow> (\<exists>v\<in>set SECURITY_ANSWER_VARIANTS.
        spec_normalize toLowerCase s = spec_normalize toLowerCase v)"
    by (simp add: spec_normalize_def trim_variant)
  finally show ?thesis by blast
qed

lemma variant_normal_form_nonempty:
  "v \<in> set SECURITY_ANSWER_VARIANTS \<Longrightarrow>
     filter (\<lambda>c. c \<noteq> 0x002E) (filter (\<lambda>c. \<not> isWhiteSpace c) v) \<noteq> []"
  by (auto simp: SECURITY_ANSWER_VARIANTS_def isWhiteSpace_def ascii_def)

lemma validateSecurityAnswer_empty:
  assumes "toLowerCase [] = []" and "list_all (\<lambda>v. toLowerCase v = v) SECURITY_ANSWER_VARIANTS"
  shows "\<not> validateSecurityAnswer toLowerCase []"
proof
  assume "validateSecurityAnswer toLowerCase []"
  then obtain v where v: "v \<in> set SECURITY_ANSWER_VARIANTS"
    and eq: "spec_normalize toLowerCase [] = spec_normalize toLowerCase v"
    unfolding validateSecurityAnswer_spec by blast
  from assms(2) v have "toLowerCase v = v" by (simp add: list_all_iff)
  with v have "spec_normalize toLowerCase v \<noteq> []"
    using variant_normal_form_nonempty [OF v] by (simp add: spec_normalize_def trim_variant)
  moreover from assms(1) have "spec_normalize toLowerCase [] = []"
    by (simp add: spec_normalize_def trim_def)
  ultimately show False using eq by simp
qed

text \<open>
  Claim C2. For every string, \<open>validateSecurityAnswer\<close> returns true exactly when the
  string, after trimming, lowercasing, removing all white space and removing all full
  stops, equals one of the accepted variants normalised the same way. In particular it
  returns false for the empty string (for a case mapping that fixes the empty string and
  the variants, which are already in lower case).
\<close>

theorem C2_validateSecurityAnswer_normalized:
  "(validateSecurityAnswer toLowerCase s \<longleftrightarrow>
      spec_normalize toLowerCase s \<in> spec_normalize toLowerCase ` set SECURITY_ANSWER_VARIANTS)
   \<and> (toLowerCase [] = [] \<and> list_all (\<lambda>v. toLowerCase v = v) SECURITY_ANSWER_VARIANTS
        \<longrightarrow> \<not> validateSecurityAnswer toLowerCase [])"
  using validateSecurityAnswer_spec [of toLowerCase s] validateSecurityAnswer_empty [of toLowerCase]
  by blast

lemma ascii_lower_variants: "list_all (\<lambda>v. ascii_toLowerCase v = v) SECURITY_ANSWER_VARIANTS"
  by (simp add: SECURITY_ANSWER_VARIANTS_def ascii_toLowerCase_def ascii_def)

theorem C2_validateSecurityAnswer_normalized_witness:
  "ascii_toLowerCase [] = []
   \<and> list_all (\<lambda>v. ascii_toLowerCase v = v) SECURITY_ANSWER_VARIANTS
   \<and> \<not> validateSecurityAnswer ascii_toLowerCase []
   \<and> validateSecurityAnswer ascii_toLowerCase (ascii ''Mount Fuji'')
   \<and> \<not> validateSecurityAnswer ascii_toLowerCase (ascii ''test'')"
proof -
  have e: "ascii_toLowerCase [] = []" by (simp add: ascii_toLowerCase_def)
  have m: "spec_normalize ascii_toLowerCase (ascii ''Mount Fuji'')
             = spec_normalize ascii_toLowerCase (ascii ''mount fuji'')"
    by (simp add: spec_normalize_def ascii_toLowerCase_def trim_def isWhiteSpace_def ascii_def)
  have mem: "ascii ''mount fuji'' \<in> set SECURITY_ANSWER_VARIANTS"
    by (simp add: SECURITY_ANSWER_VARIANTS_def)
  have t: "spec_normalize ascii_toLowerCase (ascii ''test'')
             \<notin> spec_normalize ascii_toLowerCase ` set SECURITY_ANSWER_VARIANTS"
    by (simp add: SECURITY_ANSWER_VARIANTS_def spec_normalize_def ascii_toLowerCase_def trim_def
        isWhiteSpace_def ascii_def)
  from m mem have "spec_normalize ascii_toLowerCase (ascii ''Mount Fuji'')
      \<in> spec_normalize ascii_toLowerCase ` set SECURITY_ANSWER_VARIANTS"
    by (metis imageI)
  with e ascii_lower_variants t
    C2_validateSecurityAnswer_normalized [of ascii_toLowerCase "ascii ''Mount Fuji''"]
    C2_validateSecurityAnswer_normalized [of ascii_toLowerCase "ascii ''test''"]
  show ?thesis by blast
qed

section \<open>The form validator\<close>

lemma typeof_string_iff: "typeof v = ascii ''string'' \<longleftrightarrow> (\<exists>s. v = JString s)"
  by (cases v) (simp_all add: ascii_def)

lemma typeof_object_iff: "typeof v = ascii ''object'' \<and> v \<noteq> JNull \<longleftrightarrow> (\<exists>ps. v = JObject ps)"
  by (cases v) (simp_all add: ascii_def)

lemma validateContactForm_iff:
  "validateContactForm v \<longleftrightarrow>
     typeof v = ascii ''object'' \<and> v \<noteq> JNull \<and>
     (\<exists>n. get_prop v (ascii ''name'') = JString n \<and> 0 < length (trim n)) \<and>
     (\<exists>e. get_prop v (ascii ''email'') = JString e \<and> (\<exists>p q. e = p @ ascii ''@'' @ q)) \<and>
     (\<exists>m. get_prop v (ascii ''message'') = JString m \<and> 0 < length (trim m)) \<and>
     (\<exists>a. get_prop v (ascii ''securityAnswer'') = JString a)"
  unfolding validateContactForm_def Let_def typeof_string_iff includes_iff [symmetric]
  by auto

lemma validateContactForm_missing:
  assumes "k \<in> set REQUIRED_FIELDS" and "map_of ps k = None"
  shows "\<not> validateContactForm (JObject ps)"
proof -
  from assms(2) have "get_prop (JObject ps) k = JUndefined" by simp
  with assms(1) show ?thesis
    unfolding validateContactForm_iff REQUIRED_FIELDS_def by auto
qed

lemma validateContactForm_optional:
  assumes "k \<in> set OPTIONAL_FIELDS"
  shows "validateContactForm (JObject ((k, x) # ps)) = validateContactForm (JObject ps)"
proof -
  from assms have "k \<noteq> ascii ''name''" "k \<noteq> ascii ''email''" "k \<noteq> ascii ''message''"
    "k \<noteq> ascii ''securityAnswer''"
    by (auto simp: OPTIONAL_FIELDS_def ascii_def)
  then show ?thesis
    unfolding validateContactForm_iff by simp
qed

text \<open>
  Claim C3. For every value, \<open>validateContactForm\<close> returns true exactly when the value
  is a non-null object whose \<open>name\<close> is a string with trimmed length above zero, whose
  \<open>email\<close> is a string containing \<open>@\<close>, whose \<open>message\<close> is a string with trimmed length
  above zero and whose \<open>securityAnswer\<close> is a string. In particular it returns false for
  \<open>null\<close>, \<open>undefined\<close>, the empty object and any object missing one of the four fields,
  and setting \<open>company\<close>, \<open>phone\<close> or \<open>recaptchaToken\<close> to any value does not change the
  result.
\<close>

theorem C3_validateContactForm_iff:
  "(validateContactForm v \<longleftrightarrow>
      typeof v = ascii ''object'' \<and> v \<noteq> JNull \<and>
      (\<exists>n. get_prop v (ascii ''name'') = JString n \<and> 0 < length (trim n)) \<and>
      (\<exists>e. get_prop v (ascii ''email'') = JString e \<and> (\<exists>p q. e = p @ ascii ''@'' @ q)) \<and>
      (\<exists>m. get_prop v (ascii ''message'') = JString m \<and> 0 < length (trim m)) \<and>
      (\<exists>a. get_prop v (ascii ''securityAnswer'') = JString a))
   \<and> \<not> validateContactForm JNull
   \<and> \<not> validateContactForm JUndefined
   \<and> \<not> validateContactForm (JObject [])
   \<and> (k \<in> set REQUIRED_FIELDS \<and> map_of ps k = None \<longrightarrow> \<not> validateContactForm (JObject ps))
   \<and> (k' \<in> set OPTIONAL_FIELDS \<longrightarrow>
        validateContactForm (JObject ((k', x) # ps)) = validateContactForm (JObject ps))"
proof -
  have "\<not> validateContactForm JNull" "\<not> validateContactForm JUndefined"
    "\<not> validateContactForm (JObject [])"
    by (simp_all add: validateContactForm_def ascii_def)
  then show ?thesis
    using validateContactForm_iff [of v] validateContactForm_missing [of k ps]
      validateContactForm_optional [of k' x ps]
    by blast
qed

theorem C3_validateContactForm_iff_witness:
  "ascii ''name'' \<in> set REQUIRED_FIELDS
   \<and> map_of sample_form (ascii ''name'') = None
   \<and> \<not> validateContactForm (JObject sample_form)
   \<and> validateContactForm (JObject ((ascii ''name'', JString (ascii ''Taro'')) # sample_form))
   \<and> ascii ''phone'' \<in> set OPTIONAL_FIELDS
   \<and> validateContactForm
        (JObject ((ascii ''phone'', JNumber 5) # (ascii ''name'', JString (ascii ''Taro'')) # sample_form))"
proof -
  have r: "ascii ''name'' \<in> set REQUIRED_FIELDS" by (simp add: REQUIRED_FIELDS_def)
  have n: "map_of sample_form (ascii ''name'') = None" by (simp add: sample_form_def ascii_def)
  have p: "ascii ''phone'' \<in> set OPTIONAL_FIELDS" by (simp add: OPTIONAL_FIELDS_def)
  have e: "ascii ''test@example.com'' = ascii ''test'' @ ascii ''@'' @ ascii ''example.com''"
    by (simp add: ascii_def)
  have t: "0 < length (trim (ascii ''Taro''))" "0 < length (trim (ascii ''hello''))"
    by (simp_all add: trim_def isWhiteSpace_def ascii_def)
  let ?v = "JObject ((ascii ''name'', JString (ascii ''Taro'')) # sample_form)"
  have g: "get_prop ?v (ascii ''name'') = JString (ascii ''Taro'')"
    "get_prop ?v (ascii ''email'') = JString (ascii ''test@example.com'')"
    "get_prop ?v (ascii ''message'') = JString (ascii ''hello'')"
    "get_prop ?v (ascii ''securityAnswer'') = JString (ascii ''fujisan'')"
    by (simp_all add: sample_form_def ascii_def)
  have o: "typeof ?v = ascii ''object''" "?v \<noteq> JNull" by simp_all
  have v: "validateContactForm ?v"
    using C3_validateContactForm_iff [of ?v "ascii ''name''" sample_form "ascii ''phone''" "JNumber 5"]
      g t e o by metis
  from r n p v
    C3_validateContactForm_iff [of ?v "ascii ''name''" sample_form "ascii ''phone''" "JNumber 5"]
    C3_validateContactForm_iff [of ?v "ascii ''name''"
      "(ascii ''name'', JString (ascii ''Taro'')) # sample_form" "ascii ''phone''" "JNumber 5"]
  show ?thesis by blast
qed

section \<open>The reCAPTCHA verifier\<close>

text \<open>
  Claim C5. For every token, \<open>verifyRecaptcha\<close> called without a secret key returns
  \<open>true\<close> and performs no network call: its only event is the console warning.
\<close>

theorem C5_verifyRecaptcha_no_secret:
  "fst (verifyRecaptcha fetch token None) = JBoolean True
   \<and> \<not> list_ex is_fetch (snd (verifyRecaptcha fetch token None))
   \<and> snd (verifyRecaptcha fetch token None)
       = [ConsoleWarn (ascii ''RECAPTCHA_SECRET_KEY not set, skipping verification'')]"
  by (simp add: verifyRecaptcha_def recaptcha_skipped_def)

text \<open>
  Claim C6. For every token and every non-empty secret key, if the network call rejects,
  or the parsing of the response rejects, \<open>verifyRecaptcha\<close> returns \<open>false\<close>.
\<close>

theorem C6_verifyRecaptcha_fail_closed:
  assumes "secretKey \<noteq> []"
    and "fetch SITEVERIFY_URL (siteverify_init secretKey token) = Rejected error
         \<or> fetch SITEVERIFY_URL (siteverify_init secretKey token) = Resolved (Rejected error)"
  shows "fst (verifyRecaptcha fetch token (Some secretKey)) = JBoolean False"
  using assms by (auto simp: verifyRecaptcha_def recaptcha_caught_def)

theorem C6_verifyRecaptcha_fail_closed_witness:
  "ascii ''secret-key'' \<noteq> []
   \<and> fetch_network_error SITEVERIFY_URL (siteverify_init (ascii ''secret-key'') (ascii ''test-token''))
       = Rejected (JString (ascii ''Network error''))
   \<and> fst (verifyRecaptcha fetch_network_error (ascii ''test-token'') (Some (ascii ''secret-key'')))
       = JBoolean False
   \<and> fetch_bad_json SITEVERIFY_URL (siteverify_init (ascii ''secret-key'') (ascii ''test-token''))
       = Resolved (Rejected (JString (ascii ''Unexpected token'')))
   \<and> fst (verifyRecaptcha fetch_bad_json (ascii ''test-token'') (Some (ascii ''secret-key'')))
       = JBoolean False"
proof -
  have k: "ascii ''secret-key'' \<noteq> []" by (simp add: ascii_def)
  have n: "fetch_network_error SITEVERIFY_URL (siteverify_init (ascii ''secret-key'') (ascii ''test-token''))
       = Rejected (JString (ascii ''Network error''))"
    by (simp add: fetch_network_error_def)
  have j: "fetch_bad_json SITEVERIFY_URL (siteverify_init (ascii ''secret-key'') (ascii ''test-token''))
       = Resolved (Rejected (JString (ascii ''Unexpected token'')))"
    by (simp add: fetch_bad_json_def)
  from k n j
    C6_verifyRecaptcha_fail_closed [of "ascii ''secret-key''" fetch_network_error "ascii ''test-token''"
      "JString (ascii ''Network error'')"]
    C6_verifyRecaptcha_fail_closed [of "ascii ''secret-key''" fetch_bad_json "ascii ''test-token''"
      "JString (ascii ''Unexpected token'')"]
  show ?thesis by blast
qed

text \<open>
  Claim C9. With the empty string as the secret key, \<open>verifyRecaptcha\<close> behaves exactly as
  without a key: the result and the events are the same, the value is \<open>true\<close> and there
  is no network call.
\<close>

theorem C9_verifyRecaptcha_empty_secret:
  "verifyRecaptcha fetch token (Some []) = verifyRecaptcha fetch token None
   \<and> fst (verifyRecaptcha fetch token (Some [])) = JBoolean True
   \<and> \<not> list_ex is_fetch (snd (verifyRecaptcha fetch token (Some [])))"
  by (simp add: verifyRecaptcha_def recaptcha_skipped_def)

section \<open>Sending the two emails\<close>

lemma mailOptions_neq_autoReplyOptions:
  "mailOptions formData gmailUser \<noteq> autoReplyOptions formData' gmailUser'"
proof
  assume "mailOptions formData gmailUser = autoReplyOptions formData' gmailUser'"
  then have "replyTo (mailOptions formData gmailUser) = replyTo (autoReplyOptions formData' gmailUser')"
    by simp
  then show False by (simp add: mailOptions_def autoReplyOptions_def)
qed

lemma sendContactEmail_first_rejected:
  assumes "fst (sendMail st (mailOptions formData gmailUser)) = Rejected error"
  shows "sendContactEmail formData sendMail st gmailUser =
           (send_failed, snd (sendMail st (mailOptions formData gmailUser)),
            [SendMail (mailOptions formData gmailUser),
             ConsoleError (ascii ''Failed to send contact email:'') error])"
  using assms by (cases "sendMail st (mailOptions formData gmailUser)") (simp add: sendContactEmail_def)

lemma sendContactEmail_second_rejected:
  assumes "fst (sendMail st (mailOptions formData gmailUser)) = Resolved info"
    and "fst (sendMail (snd (sendMail st (mailOptions formData gmailUser)))
               (autoReplyOptions formData gmailUser)) = Rejected error"
  shows "sendContactEmail formData sendMail st gmailUser =
           (send_failed,
            snd (sendMail (snd (sendMail st (mailOptions formData gmailUser)))
                   (autoReplyOptions formData gmailUser)),
            [SendMail (mailOptions formData gmailUser),
             SendMail (autoReplyOptions formData gmailUser),
             ConsoleError (ascii ''Failed to send contact email:'') error])"
proof -
  obtain st1 where a: "sendMail st (mailOptions formData gmailUser) = (Resolved info, st1)"
    using assms(1) by (cases "sendMail st (mailOptions formData gmailUser)") simp
  with assms(2) obtain st2 where
    b: "sendMail st1 (autoReplyOptions formData gmailUser) = (Rejected error, st2)"
    by (cases "sendMail st1 (autoReplyOptions formData gmailUser)") simp
  from a b show ?thesis by (simp add: sendContactEmail_def)
qed

lemma sendContactEmail_both_resolved:
  assumes "fst (sendMail st (mailOptions formData gmailUser)) = Resolved info"
    and "fst (sendMail (snd (sendMail st (mailOptions formData gmailUser)))
               (autoReplyOptions formData gmailUser)) = Resolved info'"
  shows "sendContactEmail formData sendMail st gmailUser =
           (send_succeeded,
            snd (sendMail (snd (sendMail st (mailOptions formData gmailUser)))
                   (autoReplyOptions formData gmailUser)),
            [SendMail (mailOptions formData gmailUser),
             SendMail (autoReplyOptions formData gmailUser),
             ConsoleLog (ascii ''Contact form submitted successfully from: '' @ email formData)])"
proof -
  obtain st1 where a: "sendMail st (mailOptions formData gmailUser) = (Resolved info, st1)"
    using assms(1) by (cases "sendMail st (mailOptions formData gmailUser)") simp
  with assms(2) obtain st2 where
    b: "sendMail st1 (autoReplyOptions formData gmailUser) = (Resolved info', st2)"
    by (cases "sendMail st1 (autoReplyOptions formData gmailUser)") simp
  from a b show ?thesis by (simp add: sendContactEmail_def)
qed

text \<open>
  Claim C7. If either of the two sends rejects, \<open>sendContactEmail\<close> reports the whole
  operation as failed: the result has \<open>success\<close> false and the fixed error string,
  whatever the rejection's error was, and nothing is sent again: the transporter saw the
  notification once, or the notification and then the auto-reply once each.
\<close>

theorem C7_sendContactEmail_failure:
  assumes "fst (sendMail st (mailOptions formData gmailUser)) = Rejected error
           \<or> (fst (sendMail st (mailOptions formData gmailUser)) = Resolved info
              \<and> fst (sendMail (snd (sendMail st (mailOptions formData gmailUser)))
                        (autoReplyOptions formData gmailUser)) = Rejected error)"
  shows "fst (sendContactEmail formData sendMail st gmailUser)
           = \<lparr>success = False, result_message = None, result_error = Some FAILURE_MESSAGE\<rparr>
         \<and> (sent (snd (snd (sendContactEmail formData sendMail st gmailUser)))
               = [mailOptions formData gmailUser]
            \<or> sent (snd (snd (sendContactEmail formData sendMail st gmailUser)))
               = [mailOptions formData gmailUser, autoReplyOptions formData gmailUser])"
  using assms
proof
  assume "fst (sendMail st (mailOptions formData gmailUser)) = Rejected error"
  then show ?thesis
    by (simp add: sendContactEmail_first_rejected send_failed_def)
next
  assume "fst (sendMail st (mailOptions formData gmailUser)) = Resolved info
      \<and> fst (sendMail (snd (sendMail st (mailOptions formData gmailUser)))
              (autoReplyOptions formData gmailUser)) = Rejected error"
  then show ?thesis
    by (simp add: sendContactEmail_second_rejected send_failed_def)
qed

theorem C7_sendContactEmail_failure_witness:
  "fst (sendContactEmail validFormData rejecting_transporter 0 (ascii ''admin@example.com''))
     = \<lparr>success = False, result_message = None, result_error = Some FAILURE_MESSAGE\<rparr>
   \<and> fst (sendContactEmail validFormData second_rejecting_transporter 0 (ascii ''admin@example.com''))
     = \<lparr>success = False, result_message = None, result_error = Some FAILURE_MESSAGE\<rparr>"
proof -
  have a: "fst (rejecting_transporter 0 (mailOptions validFormData (ascii ''admin@example.com'')))
             = Rejected SMTP_error"
    by (simp add: rejecting_transporter_def)
  have b: "fst (second_rejecting_transporter 0 (mailOptions validFormData (ascii ''admin@example.com'')))
             = Resolved JUndefined
      \<and> fst (second_rejecting_transporter
               (snd (second_rejecting_transporter 0
                      (mailOptions validFormData (ascii ''admin@example.com''))))
               (autoReplyOptions validFormData (ascii ''admin@example.com''))) = Rejected SMTP_error"
    by (simp add: second_rejecting_transporter_def)
  from a b
    C7_sendContactEmail_failure [where sendMail = rejecting_transporter and st = 0
      and formData = validFormData and gmailUser = "ascii ''admin@example.com''"
      and error = SMTP_error and info = JUndefined]
    C7_sendContactEmail_failure [where sendMail = second_rejecting_transporter and st = 0
      and formData = validFormData and gmailUser = "ascii ''admin@example.com''"
      and error = SMTP_error and info = JUndefined]
  show ?thesis by blast
qed

text \<open>
  Claim C8. In every call the sends are issued strictly in sequence. The notification,
  addressed to the operator, is handed to the transporter first; the auto-reply,
  addressed to the submitter, follows only after the first send has resolved, and it
  runs on the transporter state the first send left behind. No other order occurs.
\<close>

theorem C8_sends_in_sequence:
  "(case sendMail st (mailOptions formData gmailUser) of
      (Rejected error, st1) \<Rightarrow>
        sent (snd (snd (sendContactEmail formData sendMail st gmailUser)))
          = [mailOptions formData gmailUser]
        \<and> fst (snd (sendContactEmail formData sendMail st gmailUser)) = st1
    | (Resolved info, st1) \<Rightarrow>
        sent (snd (snd (sendContactEmail formData sendMail st gmailUser)))
          = [mailOptions formData gmailUser, autoReplyOptions formData gmailUser]
        \<and> fst (snd (sendContactEmail formData sendMail st gmailUser))
          = snd (sendMail st1 (autoReplyOptions formData gmailUser)))
   \<and> mail_to (mailOptions formData gmailUser) = gmailUser
   \<and> mail_to (autoReplyOptions formData gmailUser) = email formData"
proof -
  have "mail_to (mailOptions formData gmailUser) = gmailUser"
    "mail_to (autoReplyOptions formData gmailUser) = email formData"
    by (simp_all add: mailOptions_def autoReplyOptions_def)
  moreover have "case sendMail st (mailOptions formData gmailUser) of
      (Rejected error, st1) \<Rightarrow>
        sent (snd (snd (sendContactEmail formData sendMail st gmailUser)))
          = [mailOptions formData gmailUser]
        \<and> fst (snd (sendContactEmail formData sendMail st gmailUser)) = st1
    | (Resolved info, st1) \<Rightarrow>
        sent (snd (snd (sendContactEmail formData sendMail st gmailUser)))
          = [mailOptions formData gmailUser, autoReplyOptions formData gmailUser]
        \<and> fst (snd (sendContactEmail formData sendMail st gmailUser))
          = snd (sendMail st1 (autoReplyOptions formData gmailUser))"
  proof (cases "sendMail st (mailOptions formData gmailUser)")
    case (Pair r st1)
    show ?thesis
    proof (cases r)
      case (Rejected error)
      with Pair show ?thesis by (simp add: sendContactEmail_def)
    next
      case (Resolved info)
      with Pair show ?thesis
        by (cases "sendMail st1 (autoReplyOptions formData gmailUser)")
           (auto simp: sendContactEmail_def split: outcome.splits)
    qed
  qed
  ultimately show ?thesis by blast
qed

theorem C8_sends_in_sequence_witness:
  "map mail_to (sent (snd (snd (sendContactEmail validFormData accepting_transporter 0
                                  (ascii ''admin@example.com'')))))
     = [ascii ''admin@example.com'', ascii ''customer@example.com'']
   \<and> fst (snd (sendContactEmail validFormData accepting_transporter 0 (ascii ''admin@example.com'')))
     = 2"
proof -
  have a: "accepting_transporter 0 (mailOptions validFormData (ascii ''admin@example.com''))
             = (Resolved JUndefined, 1)"
    by (simp add: accepting_transporter_def)
  have e: "email validFormData = ascii ''customer@example.com''"
    by (simp add: validFormData_def)
  show ?thesis
    using C8_sends_in_sequence [where sendMail = accepting_transporter and st = 0
      and formData = validFormData and gmailUser = "ascii ''admin@example.com''"]
    by (simp add: a e accepting_transporter_def)
qed

text \<open>
  Claim C10. If the notification send rejects, \<open>sendContactEmail\<close> never attempts the
  auto-reply and returns the failure result: the transporter is called once, with the
  notification, and is left in the state of that one call.
\<close>

theorem C10_first_rejection_stops:
  assumes "fst (sendMail st (mailOptions formData gmailUser)) = Rejected error"
  shows "sent (snd (snd (sendContactEmail formData sendMail st gmailUser)))
           = [mailOptions formData gmailUser]
         \<and> autoReplyOptions formData gmailUser
             \<notin> set (sent (snd (snd (sendContactEmail formData sendMail st gmailUser))))
         \<and> fst (snd (sendContactEmail formData sendMail st gmailUser))
             = snd (sendMail st (mailOptions formData gmailUser))
         \<and> fst (sendContactEmail formData sendMail st gmailUser)
             = \<lparr>success = False, result_message = None, result_error = Some FAILURE_MESSAGE\<rparr>"
proof -
  have "sendContactEmail formData sendMail st gmailUser =
           (send_failed, snd (sendMail st (mailOptions formData gmailUser)),
            [SendMail (mailOptions formData gmailUser),
             ConsoleError (ascii ''Failed to send contact email:'') error])"
    using assms by (rule sendContactEmail_first_rejected)
  then show ?thesis
    using mailOptions_neq_autoReplyOptions [of formData gmailUser formData gmailUser]
    by (simp add: send_failed_def)
qed

theorem C10_first_rejection_stops_witness:
  "length (sent (snd (snd (sendContactEmail validFormData rejecting_transporter 0
                             (ascii ''admin@example.com''))))) = 1
   \<and> fst (snd (sendContactEmail validFormData rejecting_transporter 0 (ascii ''admin@example.com'')))
       = 1
   \<and> success (fst (sendContactEmail validFormData rejecting_transporter 0
                      (ascii ''admin@example.com''))) = False"
proof -
  have a: "fst (rejecting_transporter 0 (mailOptions validFormData (ascii ''admin@example.com'')))
             = Rejected SMTP_error"
    by (simp add: rejecting_transporter_def)
  show ?thesis
    using C10_first_rejection_stops [where sendMail = rejecting_transporter and st = 0
      and formData = validFormData and gmailUser = "ascii ''admin@example.com''"
      and error = SMTP_error, OF a]
    by (simp add: rejecting_transporter_def)
qed

section \<open>Escaping in the HTML bodies\<close>

lemma lt_guarded_Cons: "c \<noteq> 0x003C \<Longrightarrow> lt_guarded xs \<Longrightarrow> lt_guarded (c # xs)"
  by (cases xs rule: lt_guarded.cases) simp_all

lemma lt_guarded_append: "lt_guarded a \<Longrightarrow> lt_guarded b \<Longrightarrow> lt_guarded (a @ b)"
proof (induction a rule: lt_guarded.induct)
  case (1 c d e r)
  then show ?case by simp
next
  case (2 c d)
  then show ?case by (simp add: lt_guarded_Cons)
next
  case (3 c)
  then show ?case by (simp add: lt_guarded_Cons)
next
  case 4
  then show ?case by simp
qed

lemma lt_guarded_concat: "list_all lt_guarded xss \<Longrightarrow> lt_guarded (concat xss)"
  by (induction xss) (simp_all add: lt_guarded_append)

lemma lt_guarded_no_lt: "0x003C \<notin> set xs \<Longrightarrow> lt_guarded xs"
  by (induction xs) (auto simp: lt_guarded_Cons)

lemma escapeHtml_no_lt: "0x003C \<notin> set (escapeHtml s)"
  by (induction s) (auto simp: escapeHtml_concat_map spec_entity_def ascii_def)

lemma lt_guarded_escapeHtml: "lt_guarded (escapeHtml s)"
  by (rule lt_guarded_no_lt) (rule escapeHtml_no_lt)

lemma lt_guarded_if_truthy: "(\<And>s. lt_guarded (f s)) \<Longrightarrow> lt_guarded g \<Longrightarrow> lt_guarded (if_truthy v f g)"
  by (simp add: if_truthy_def split: option.splits)

lemma lt_guarded_no_script: "lt_guarded xs \<Longrightarrow> \<not> str_includes xs (ascii ''<script>'')"
  by (induction xs rule: lt_guarded.induct) (auto simp: ascii_def)

lemma includes_concat:
  assumes "x \<in> set xss" and "str_includes x needle"
  shows "str_includes (concat xss) needle"
proof -
  from assms(1) obtain pre post where "xss = pre @ x # post" by (auto dest: split_list)
  moreover from assms(2) obtain p q where "x = p @ needle @ q" by (auto simp: includes_iff)
  ultimately have "concat xss = (concat pre @ p) @ needle @ (q @ concat post)" by simp
  then show ?thesis unfolding includes_iff by blast
qed

lemma includes_refl: "str_includes x x"
  unfolding includes_iff by (metis append_Nil append_Nil2)

lemma escapeHtml_script:
  assumes "str_includes s (ascii ''<script>'')"
  shows "str_includes (escapeHtml s) (ascii ''&lt;script&gt;'')"
proof -
  from assms obtain p q where "s = p @ ascii ''<script>'' @ q" by (auto simp: includes_iff)
  then have "escapeHtml s = escapeHtml p @ escapeHtml (ascii ''<script>'') @ escapeHtml q"
    by (simp add: escapeHtml_append)
  moreover have "escapeHtml (ascii ''<script>'') = ascii ''&lt;script&gt;''"
    by (simp add: escapeHtml_concat_map spec_entity_def ascii_def)
  ultimately show ?thesis unfolding includes_iff by metis
qed

lemma notification_html_guarded: "lt_guarded (notification_html formData)"
  unfolding notification_html_def
  by (rule lt_guarded_concat)
     (simp add: lt_guarded_escapeHtml lt_guarded_if_truthy LF_def ascii_def)

lemma autoReply_html_guarded: "lt_guarded (autoReply_html formData)"
  unfolding autoReply_html_def
  by (rule lt_guarded_concat)
     (simp add: lt_guarded_escapeHtml lt_guarded_if_truthy lt_guarded_concat LF_def ascii_def
        del: concat.simps)

lemma sent_sendContactEmail:
  "sent (snd (snd (sendContactEmail formData sendMail st gmailUser)))
     = [mailOptions formData gmailUser]
   \<or> sent (snd (snd (sendContactEmail formData sendMail st gmailUser)))
     = [mailOptions formData gmailUser, autoReplyOptions formData gmailUser]"
  by (simp add: sendContactEmail_def split: prod.splits outcome.splits)

lemma includes_concat_here: "str_includes x needle \<Longrightarrow> str_includes (concat (x # xs)) needle"
  by (rule includes_concat [of x]) simp_all

lemma includes_concat_later:
  "str_includes (concat xs) needle \<Longrightarrow> str_includes (concat (x # xs)) needle"
  unfolding includes_iff concat.simps by (metis append.assoc)

lemma includes_trans:
  "str_includes a b \<Longrightarrow> str_includes b c \<Longrightarrow> str_includes a c"
  unfolding includes_iff by (metis append.assoc)

lemma if_truthy_Some: "v = Some s \<Longrightarrow> s \<noteq> [] \<Longrightarrow> if_truthy v f g = f s"
  by (simp add: if_truthy_def)

lemma notification_html_fields:
  "str_includes (notification_html formData) (escapeHtml (name formData))"
  "str_includes (notification_html formData) (escapeHtml (email formData))"
  "str_includes (notification_html formData) (escapeHtml (message formData))"
  unfolding notification_html_def
  by (fast intro: includes_concat_here includes_concat_later includes_refl)+

lemma autoReply_html_fields:
  "str_includes (autoReply_html formData) (escapeHtml (name formData))"
  "str_includes (autoReply_html formData) (escapeHtml (email formData))"
  "str_includes (autoReply_html formData) (escapeHtml (message formData))"
  unfolding autoReply_html_def
  by (fast intro: includes_concat_here includes_concat_later includes_refl)+

lemma notification_html_company:
  assumes "company formData = Some c" and "c \<noteq> []"
  shows "str_includes (notification_html formData) (escapeHtml c)"
  unfolding notification_html_def if_truthy_Some [OF assms]
  by (fast intro: includes_concat_here includes_concat_later includes_refl)

lemma notification_html_phone:
  assumes "phone formData = Some c" and "c \<noteq> []"
  shows "str_includes (notification_html formData) (escapeHtml c)"
  unfolding notification_html_def if_truthy_Some [OF assms]
  by (fast intro: includes_concat_here includes_concat_later includes_refl)

lemma autoReply_html_company:
  assumes "company formData = Some c" and "c \<noteq> []"
  shows "str_includes (autoReply_html formData) (escapeHtml c)"
  unfolding autoReply_html_def if_truthy_Some [OF assms]
  by (fast intro: includes_concat_here includes_concat_later includes_refl)

lemma autoReply_html_phone:
  assumes "phone formData = Some c" and "c \<noteq> []"
  shows "str_includes (autoReply_html formData) (escapeHtml c)"
  unfolding autoReply_html_def if_truthy_Some [OF assms]
  by (fast intro: includes_concat_here includes_concat_later includes_refl)

lemma if_truthy_boolI: "(\<And>s. v = Some s \<Longrightarrow> s \<noteq> [] \<Longrightarrow> P s) \<Longrightarrow> if_truthy v P True"
  by (simp add: if_truthy_def split: option.splits)

lemma html_escaped_messages:
  "html_escaped formData (mailOptions formData gmailUser)"
  "html_escaped formData (autoReplyOptions formData gmailUser)"
  by (simp_all add: html_escaped_def mailOptions_def autoReplyOptions_def
      notification_html_fields autoReply_html_fields
      lt_guarded_no_script notification_html_guarded autoReply_html_guarded
      if_truthy_boolI notification_html_company notification_html_phone
      autoReply_html_company autoReply_html_phone)

text \<open>
  Claim C1. For every submission whose name contains \<open><script>\<close>, the HTML body of the
  first message handed to the transporter, the notification, contains \<open>&lt;script&gt;\<close>
  and does not contain \<open><script>\<close>. The field values reach the HTML bodies through
  \<open>escapeHtml\<close>: for every submission, every HTML body handed to the transporter is free
  of \<open><script>\<close> and contains the escaped name, email and message, and the escaped
  company and phone when given.
\<close>

theorem C1_html_bodies_escaped:
  "(str_includes (name formData) (ascii ''<script>'') \<longrightarrow>
      (\<exists>m rest.
          sent (snd (snd (sendContactEmail formData sendMail st gmailUser))) = m # rest
          \<and> str_includes (html m) (ascii ''&lt;script&gt;'')
          \<and> \<not> str_includes (html m) (ascii ''<script>'')))
   \<and> list_all (html_escaped formData)
         (sent (snd (snd (sendContactEmail formData sendMail st gmailUser))))"
proof -
  let ?m = "mailOptions formData gmailUser"
  let ?sent = "sent (snd (snd (sendContactEmail formData sendMail st gmailUser)))"
  have m: "html_escaped formData ?m"
    and a: "html_escaped formData (autoReplyOptions formData gmailUser)"
    by (rule html_escaped_messages)+
  have hd: "\<exists>rest. ?sent = ?m # rest" and all: "list_all (html_escaped formData) ?sent"
    using sent_sendContactEmail [of formData sendMail st gmailUser] m a by auto
  have raw: "\<not> str_includes (html ?m) (ascii ''<script>'')"
    using m by (simp add: html_escaped_def)
  have esc: "str_includes (html ?m) (ascii ''&lt;script&gt;'')"
    if "str_includes (name formData) (ascii ''<script>'')"
  proof -
    have "str_includes (html ?m) (escapeHtml (name formData))"
      using m by (simp add: html_escaped_def)
    then show ?thesis using escapeHtml_script [OF that] by (rule includes_trans)
  qed
  from hd raw esc all show ?thesis by blast
qed

theorem C1_html_bodies_escaped_witness:
  "str_includes (name xssFormData) (ascii ''<script>'')
   \<and> str_includes
        (html (hd (sent (snd (snd (sendContactEmail xssFormData accepting_transporter 0
                                     (ascii ''admin@example.com'')))))))
        (ascii ''&lt;script&gt;'')
   \<and> \<not> str_includes
        (html (hd (sent (snd (snd (sendContactEmail xssFormData accepting_transporter 0
                                     (ascii ''admin@example.com'')))))))
        (ascii ''<script>'')"
proof -
  have h: "str_includes (name xssFormData) (ascii ''<script>'')"
    by (simp add: xssFormData_def ascii_def)
  with C1_html_bodies_escaped [where formData = xssFormData and sendMail = accepting_transporter
      and st = 0 and gmailUser = "ascii ''admin@example.com''"]
  obtain m rest where
    "sent (snd (snd (sendContactEmail xssFormData accepting_transporter 0
                       (ascii ''admin@example.com'')))) = m # rest"
    "str_includes (html m) (ascii ''&lt;script&gt;'')"
    "\<not> str_includes (html m) (ascii ''<script>'')"
    by blast
  with h show ?thesis by simp
qed

end
